theory Spec2Isabelle
  imports Complex_Main
begin

section \<open>The API server of src/index.ts\<close>

text \<open>
  The program is an Express application with two routes (\<open>GET /health\<close>, \<open>GET /\<close>), a
  shutdown handler registered for two signals, and a port read from the environment.
  Everything the handlers touch outside their own code (the Prisma client, the console,
  the clock, the process) is a field of the record \<open>world\<close>; a handler takes the world and
  returns the world after it, with the effects it caused appended in the order the code
  causes them. The middleware and the router in front of the handlers (\<open>cors\<close>,
  \<open>express.json\<close>, the matching of method and path) are the framework's and are not
  modelled: a handler is what runs once a request has reached its route.
\<close>

subsection \<open>Data\<close>

text \<open>A value thrown by a rejected promise; only its identity matters here.\<close>

type_synonym js_error = string

text \<open>
  What the probe can observe of the database: the round trip succeeds, or it fails with
  some error (timeout, connection refused, authentication failure, ...). The awaited
  promise of the source is taken to settle one way or the other.
\<close>

datatype db_state = Reachable | Unreachable js_error

text \<open>The object literals passed to \<open>res.json\<close>: keys in source order.\<close>

datatype json = JString string | JNumber real | JObject "(string \<times> json) list"

record response =
  status_code :: nat
  content_type :: string
  body :: json

record request =
  req_headers :: "(string \<times> string) list"
  req_body :: string

datatype effect =
    QueryRaw string
  | ConsoleError string js_error
  | ConsoleLog string
  | Disconnect
  | ProcessExit int
  | UnhandledRejection js_error

text \<open>
  \<open>uptime\<close> is what \<open>process.uptime()\<close> returns now (seconds), \<open>clock\<close> the time value of
  \<open>new Date()\<close> (milliseconds since the epoch). \<open>awaiting\<close> counts the invocations of
  \<open>shutdown\<close> suspended at their \<open>await\<close>; \<open>exit_code\<close> is \<open>None\<close> while the process runs.
  \<open>fatal_rejections\<close> is the runtime's policy for a rejected promise nobody handles:
  Node terminates the process with code 1 (its default since version 15) or only warns.
\<close>

record world =
  db :: db_state
  uptime :: real
  clock :: int
  effects :: "effect list"
  awaiting :: nat
  exit_code :: "int option"
  fatal_rejections :: bool

subsection \<open>The platform calls\<close>

definition emit :: "effect \<Rightarrow> world \<Rightarrow> world" where
  "emit e w = w\<lparr>effects := effects w @ [e]\<rparr>"

text \<open>\<open>await prisma.$queryRaw`...`\<close>: one round trip, fulfilled or rejected.\<close>

definition prisma_queryRaw :: "string \<Rightarrow> world \<Rightarrow> world \<times> (js_error + unit)" where
  "prisma_queryRaw sql w =
     (emit (QueryRaw sql) w,
      case db w of Reachable \<Rightarrow> Inr () | Unreachable e \<Rightarrow> Inl e)"

definition console_error :: "string \<Rightarrow> js_error \<Rightarrow> world \<Rightarrow> world" where
  "console_error msg e w = emit (ConsoleError msg e) w"

definition console_log :: "string \<Rightarrow> world \<Rightarrow> world" where
  "console_log msg w = emit (ConsoleLog msg) w"

text \<open>
  \<open>res.json(obj)\<close> of Express: the body is the serialised object, and the status code
  stays at the default of a Node response, 200, since no handler of the source calls
  \<open>res.status\<close>. \<open>content_type\<close> is the media type of the \<open>Content-Type\<close> header, without
  the \<open>charset=utf-8\<close> parameter Express adds to it. What Express does for a conditional
  request (\<open>If-None-Match\<close>, \<open>If-Modified-Since\<close>) is the framework's and is not modelled.
\<close>

definition res_json :: "json \<Rightarrow> response" where
  "res_json obj = \<lparr>status_code = 200, content_type = ''application/json'', body = obj\<rparr>"

fun field :: "string \<Rightarrow> json \<Rightarrow> json option" where
  "field k (JObject kvs) = map_of kvs k"
| "field k _ = None"

subsection \<open>The root endpoint\<close>

text \<open>
  \<^verbatim>\<open>app.get("/", (_req, res) => { res.json({service: "API Server", status: "running",
  version: "1.0.0"}); });\<close>
  A handler returns the world after it and either the error that escaped it or the
  response it sent. The request is not read.
\<close>

definition get_root :: "request \<Rightarrow> world \<Rightarrow> world \<times> (js_error + response)" where
  "get_root req w =
     (w, Inr (res_json (JObject
        [(''service'', JString ''API Server''),
         (''status'', JString ''running''),
         (''version'', JString ''1.0.0'')])))"

subsection \<open>The timestamp\<close>

text \<open>
  \<open>new Date().toISOString()\<close> is the platform's: ECMAScript fixes its result as
  \<open>YYYY-MM-DDTHH:mm:ss.sssZ\<close> in UTC, the year as four digits when it lies in 0..9999 and
  as a sign and six digits otherwise. The fields are those of ECMAScript (\<open>Day\<close>,
  \<open>HourFromTime\<close>, ...); year, month and day are computed from the day number by
  counting 400-, 100-, 4- and 1-year cycles from 1 March of year 0, as engines do.
  A time value lies within 8.64e15 ms of the epoch; \<open>new Date()\<close> always holds one.
\<close>

definition msPerDay :: int where
  "msPerDay = 86400000"

definition Day :: "int \<Rightarrow> int" where
  "Day t = t div msPerDay"

definition HourFromTime :: "int \<Rightarrow> int" where
  "HourFromTime t = (t div 3600000) mod 24"

definition MinFromTime :: "int \<Rightarrow> int" where
  "MinFromTime t = (t div 60000) mod 60"

definition SecFromTime :: "int \<Rightarrow> int" where
  "SecFromTime t = (t div 1000) mod 60"

definition msFromTime :: "int \<Rightarrow> int" where
  "msFromTime t = t mod 1000"

text \<open>From a day of a 400-year era (0..146096): the year of the era and the day of that year,
  both counted from 1 March.\<close>

definition year_of_era :: "int \<Rightarrow> int \<times> int" where
  "year_of_era doe =
     (let c = min 3 (doe div 36524);
          d1 = doe - c * 36524;
          q = d1 div 1461;
          d2 = d1 mod 1461;
          a = min 3 (d2 div 365)
      in (100 * c + 4 * q + a, d2 - a * 365))"

text \<open>Year, month (1..12) and day of the month (1..31) of a day number.\<close>

definition civil :: "int \<Rightarrow> int \<times> int \<times> int" where
  "civil days =
     (let era = (days + 719468) div 146097;
          (yoe, doy) = year_of_era ((days + 719468) mod 146097);
          mp = (5 * doy + 2) div 153;
          d = doy - (153 * mp + 2) div 5 + 1;
          m = (if mp < 10 then mp + 3 else mp - 9)
      in (yoe + era * 400 + (if m \<le> 2 then 1 else 0), m, d))"

definition digit_char :: "nat \<Rightarrow> char" where
  "digit_char d = char_of (48 + d mod 10)"

text \<open>The \<open>k\<close> low decimal digits of \<open>n\<close>: \<open>n\<close> padded with zeros when \<open>n < 10 ^ k\<close>.\<close>

fun pad :: "nat \<Rightarrow> nat \<Rightarrow> string" where
  "pad 0 n = []"
| "pad (Suc k) n = pad k (n div 10) @ [digit_char n]"

definition year_string :: "int \<Rightarrow> string" where
  "year_string y =
     (if 0 \<le> y \<and> y \<le> 9999 then pad 4 (nat y)
      else (if y < 0 then CHR ''-'' else CHR ''+'') # pad 6 (nat \<bar>y\<bar>))"

definition toISOString :: "int \<Rightarrow> string" where
  "toISOString t =
     (case civil (Day t) of
        (y, m, d) \<Rightarrow>
          year_string y @ ''-'' @ pad 2 (nat m) @ ''-'' @ pad 2 (nat d) @ ''T''
          @ pad 2 (nat (HourFromTime t)) @ '':'' @ pad 2 (nat (MinFromTime t)) @ '':''
          @ pad 2 (nat (SecFromTime t)) @ ''.'' @ pad 3 (nat (msFromTime t)) @ ''Z'')"

text \<open>
  The shape of an ISO-8601 date-time in UTC, as a pattern: \<open>d\<close> stands for a decimal
  digit, every other character for itself.
\<close>

definition is_digit :: "char \<Rightarrow> bool" where
  "is_digit c = (48 \<le> (of_char c :: nat) \<and> (of_char c :: nat) \<le> 57)"

definition matches :: "string \<Rightarrow> string \<Rightarrow> bool" where
  "matches pat s = list_all2 (\<lambda>p c. if p = CHR ''d'' then is_digit c else c = p) pat s"

definition is_iso8601 :: "string \<Rightarrow> bool" where
  "is_iso8601 s =
     (matches ''dddd-dd-ddTdd:dd:dd.dddZ'' s
      \<or> matches ''+dddddd-dd-ddTdd:dd:dd.dddZ'' s
      \<or> matches ''-dddddd-dd-ddTdd:dd:dd.dddZ'' s)"

definition valid_time :: "int \<Rightarrow> bool" where
  "valid_time t = (- 8640000000000000 \<le> t \<and> t \<le> 8640000000000000)"

subsection \<open>The health endpoint\<close>

text \<open>
  \<^verbatim>\<open>app.get("/health", async (_req, res) => {
    let dbOk = false;
    try { await prisma.$queryRaw`SELECT 1`; dbOk = true; }
    catch (e) { console.error("DB check failed:", e); }
    res.json({ status: dbOk ? "healthy" : "degraded", uptime: process.uptime(),
               timestamp: new Date().toISOString() });
  });\<close>
  The \<open>try\<close> block is the \<open>Inr\<close> branch, the \<open>catch\<close> block the \<open>Inl\<close> branch; the
  response is built after both.
\<close>

definition health_probe :: "world \<Rightarrow> world \<times> bool" where
  "health_probe w =
     (case prisma_queryRaw ''SELECT 1'' w of
        (w1, Inr _) \<Rightarrow> (w1, True)
      | (w1, Inl e) \<Rightarrow> (console_error ''DB check failed:'' e w1, False))"

definition get_health :: "request \<Rightarrow> world \<Rightarrow> world \<times> (js_error + response)" where
  "get_health req w =
     (case health_probe w of
        (w2, dbOk) \<Rightarrow>
          (w2, Inr (res_json (JObject
             [(''status'', JString (if dbOk then ''healthy'' else ''degraded'')),
              (''uptime'', JNumber (uptime w2)),
              (''timestamp'', JString (toISOString (clock w2)))]))))"

subsection \<open>The shutdown handler\<close>

text \<open>
  \<^verbatim>\<open>const shutdown = async () => {
    console.log("\n<stop sign> Shutting down...");
    await prisma.$disconnect();
    process.exit(0);
  };
  process.on("SIGTERM", shutdown);
  process.on("SIGINT", shutdown);\<close>
  An async function runs synchronously up to its \<open>await\<close> (\<open>shutdown_start\<close>: the log
  line and the call of \<open>$disconnect\<close>) and resumes when the awaited promise settles
  (\<open>shutdown_resume\<close>). In between, the event loop may deliver other events. A rejected
  \<open>await\<close> throws inside the function; there is no \<open>try\<close>, so the statement after it is
  skipped and the function's own promise rejects, with no handler attached by
  \<open>process.on\<close>.
\<close>

definition shutting_down_msg :: string where
  "shutting_down_msg =
     CHR 0x0A # CHR 0xF0 # CHR 0x9F # CHR 0x9B # CHR 0x91 # '' Shutting down...''"

definition process_exit :: "int \<Rightarrow> world \<Rightarrow> world" where
  "process_exit c w = (emit (ProcessExit c) w)\<lparr>exit_code := Some c\<rparr>"

text \<open>
  What the runtime does with the rejected promise of a handler: it reports it and, under
  the fatal policy, ends the process with code 1. The program itself calls nothing.
\<close>

definition unhandled_rejection :: "js_error \<Rightarrow> world \<Rightarrow> world" where
  "unhandled_rejection e w =
     (let w1 = emit (UnhandledRejection e) w
      in if fatal_rejections w1 then w1\<lparr>exit_code := Some 1\<rparr> else w1)"

definition shutdown_start :: "world \<Rightarrow> world" where
  "shutdown_start w =
     (emit Disconnect (console_log shutting_down_msg w))\<lparr>awaiting := Suc (awaiting w)\<rparr>"

definition shutdown_resume :: "js_error + unit \<Rightarrow> world \<Rightarrow> world" where
  "shutdown_resume r w =
     (let w1 = w\<lparr>awaiting := awaiting w - 1\<rparr>
      in case r of Inr _ \<Rightarrow> process_exit 0 w1 | Inl e \<Rightarrow> unhandled_rejection e w1)"

text \<open>One invocation that nothing interrupts; \<open>r\<close> is how \<open>$disconnect\<close> settles.\<close>

definition shutdown :: "js_error + unit \<Rightarrow> world \<Rightarrow> world" where
  "shutdown r w = shutdown_resume r (shutdown_start w)"

datatype signal = SIGTERM | SIGINT

fun on_signal :: "signal \<Rightarrow> world \<Rightarrow> world" where
  "on_signal SIGTERM w = shutdown_start w"
| "on_signal SIGINT w = shutdown_start w"

text \<open>
  What the event loop can hand to the shutdown coordinator: a signal, or the settling of
  the oldest pending \<open>$disconnect\<close>. A process that has exited takes no more events.
\<close>

datatype event = Signal signal | DisconnectSettled "js_error + unit"

fun step :: "world \<Rightarrow> event \<Rightarrow> world" where
  "step w (Signal s) = (if exit_code w = None then on_signal s w else w)"
| "step w (DisconnectSettled r) =
     (if exit_code w = None \<and> 0 < awaiting w then shutdown_resume r w else w)"

definition run :: "world \<Rightarrow> event list \<Rightarrow> world" where
  "run w evs = foldl step w evs"

subsection \<open>The port\<close>

text \<open>
  \<^verbatim>\<open>const PORT = parseInt(process.env.PORT || "8080", 10);\<close>
  \<open>process.env\<close> is a map from names to strings; a missing name reads as \<open>undefined\<close>.
  \<open>a || b\<close> is \<open>b\<close> when \<open>a\<close> is falsy: \<open>undefined\<close> or the empty string. A string here is
  the list of the UTF-8 bytes of the JavaScript string, as the variable has them in the
  environment of the process.

  \<open>parseInt\<close> follows the steps of ECMAScript: skip the leading white space, take a sign,
  then the longest prefix of digits of the radix, \<open>NaN\<close> when that prefix is empty; the
  integer read is rounded to a Number. The result is \<open>NaN\<close>, a finite integer or an
  infinity; the two zeros of a Number are not told apart.
\<close>

datatype js_number = NaN | Num int | Infinity | NegInfinity

definition js_or :: "string option \<Rightarrow> string \<Rightarrow> string" where
  "js_or a b = (case a of None \<Rightarrow> b | Some s \<Rightarrow> if s = [] then b else s)"

text \<open>
  The white space that \<open>parseInt\<close> skips is \<open>WhiteSpace\<close> and \<open>LineTerminator\<close> of
  ECMAScript: U+0009 to U+000D, U+0020, U+00A0, U+1680, U+2000 to U+200A, U+2028,
  U+2029, U+202F, U+205F, U+3000 and U+FEFF. In UTF-8 these are one, two or three bytes.
\<close>

definition is_white_space1 :: "char \<Rightarrow> bool" where
  "is_white_space1 c =
     (c \<in> set [CHR 0x09, CHR 0x0A, CHR 0x0B, CHR 0x0C, CHR 0x0D, CHR 0x20])"

definition is_white_space2 :: "char \<Rightarrow> char \<Rightarrow> bool" where
  "is_white_space2 c1 c2 = (c1 = CHR 0xC2 \<and> c2 = CHR 0xA0)"

definition is_white_space3 :: "char \<Rightarrow> char \<Rightarrow> char \<Rightarrow> bool" where
  "is_white_space3 c1 c2 c3 =
     ((c1 = CHR 0xE1 \<and> c2 = CHR 0x9A \<and> c3 = CHR 0x80)
      \<or> (c1 = CHR 0xE2 \<and> c2 = CHR 0x80
          \<and> ((128 \<le> (of_char c3 :: nat) \<and> (of_char c3 :: nat) \<le> 138)
              \<or> c3 = CHR 0xA8 \<or> c3 = CHR 0xA9 \<or> c3 = CHR 0xAF))
      \<or> (c1 = CHR 0xE2 \<and> c2 = CHR 0x81 \<and> c3 = CHR 0x9F)
      \<or> (c1 = CHR 0xE3 \<and> c2 = CHR 0x80 \<and> c3 = CHR 0x80)
      \<or> (c1 = CHR 0xEF \<and> c2 = CHR 0xBB \<and> c3 = CHR 0xBF))"

fun trim_start :: "string \<Rightarrow> string" where
  "trim_start (c1 # c2 # c3 # cs) =
     (if is_white_space1 c1 then trim_start (c2 # c3 # cs)
      else if is_white_space2 c1 c2 then trim_start (c3 # cs)
      else if is_white_space3 c1 c2 c3 then trim_start cs
      else c1 # c2 # c3 # cs)"
| "trim_start [c1, c2] =
     (if is_white_space1 c1 then trim_start [c2]
      else if is_white_space2 c1 c2 then []
      else [c1, c2])"
| "trim_start [c1] = (if is_white_space1 c1 then [] else [c1])"
| "trim_start [] = []"

definition digit_value :: "char \<Rightarrow> nat option" where
  "digit_value c =
     (let n = (of_char c :: nat)
      in if 48 \<le> n \<and> n \<le> 57 then Some (n - 48)
         else if 97 \<le> n \<and> n \<le> 122 then Some (n - 87)
         else if 65 \<le> n \<and> n \<le> 90 then Some (n - 55)
         else None)"

definition radix_digit :: "nat \<Rightarrow> char \<Rightarrow> bool" where
  "radix_digit R c = (case digit_value c of None \<Rightarrow> False | Some d \<Rightarrow> d < R)"

definition digits_value :: "nat \<Rightarrow> string \<Rightarrow> int" where
  "digits_value R Z =
     foldl (\<lambda>a c. case digit_value c of None \<Rightarrow> a | Some d \<Rightarrow> a * int R + int d) 0 Z"

text \<open>
  The Number nearest to an integer that is not negative: itself below 2^53, otherwise
  its 53 leading bits, rounded to nearest with ties to even; \<open>None\<close> when the rounding
  reaches 2^1024, where a Number is infinite.
\<close>

function bit_length :: "int \<Rightarrow> nat" where
  "bit_length n = (if n \<le> 0 then 0 else Suc (bit_length (n div 2)))"
  by pat_completeness auto
termination
  by (relation "measure nat") auto

declare bit_length.simps [simp del]

definition round_to_double :: "int \<Rightarrow> int option" where
  "round_to_double n =
     (if n < 9007199254740992 then Some n
      else
        (let e = bit_length n - 53;
             q = n div 2 ^ e;
             r = n mod 2 ^ e;
             h = 2 ^ (e - 1);
             q' = (if h < r \<or> (r = h \<and> odd q) then q + 1 else q);
             v = q' * 2 ^ e
         in if 2 ^ 1024 \<le> v then None else Some v))"

definition to_Number :: "int \<Rightarrow> int \<Rightarrow> js_number" where
  "to_Number sign n =
     (case round_to_double n of
        Some v \<Rightarrow> Num (sign * v)
      | None \<Rightarrow> if sign < 0 then NegInfinity else Infinity)"

definition strip_sign :: "string \<Rightarrow> int \<times> string" where
  "strip_sign S =
     (case S of
        [] \<Rightarrow> (1, [])
      | c # cs \<Rightarrow>
          if c = CHR ''-'' then (- 1, cs)
          else if c = CHR ''+'' then (1, cs)
          else (1, S))"

definition parseInt :: "string \<Rightarrow> nat \<Rightarrow> js_number" where
  "parseInt s radix =
     (case strip_sign (trim_start s) of
        (sign, S) \<Rightarrow>
          if radix \<noteq> 0 \<and> (radix < 2 \<or> 36 < radix) then NaN
          else
            (case (if (radix = 0 \<or> radix = 16) \<and> (take 2 S = ''0x'' \<or> take 2 S = ''0X'')
                   then (drop 2 S, 16)
                   else (S, if radix = 0 then 10 else radix)) of
               (S2, R) \<Rightarrow>
                 (case takeWhile (radix_digit R) S2 of
                    [] \<Rightarrow> NaN
                  | Z \<Rightarrow> to_Number sign (digits_value R Z))))"

definition PORT :: "(string \<rightharpoonup> string) \<Rightarrow> js_number" where
  "PORT env = parseInt (js_or (env ''PORT'') ''8080'') 10"

subsection \<open>Observations on the effects\<close>

text \<open>The round trips among the effects.\<close>

fun is_query :: "effect \<Rightarrow> bool" where
  "is_query (QueryRaw sql) = True"
| "is_query _ = False"

text \<open>
  No \<open>process.exit\<close> before a \<open>$disconnect\<close>: scanning the effects in order, \<open>seen\<close> says
  whether a disconnect has been attempted so far.
\<close>

fun exits_guarded :: "bool \<Rightarrow> effect list \<Rightarrow> bool" where
  "exits_guarded seen [] = True"
| "exits_guarded seen (Disconnect # es) = exits_guarded True es"
| "exits_guarded seen (ProcessExit c # es) = (seen \<and> exits_guarded seen es)"
| "exits_guarded seen (e # es) = exits_guarded seen es"

text \<open>The effects that \<open>w'\<close> has beyond those of \<open>w\<close>.\<close>

definition new_effects :: "world \<Rightarrow> world \<Rightarrow> effect list" where
  "new_effects w w' = drop (length (effects w)) (effects w')"

text \<open>
  The invariant of a run from \<open>w\<close>: the effects only grow, no exit precedes a disconnect,
  and a suspended handler has issued its disconnect.
\<close>

definition run_inv :: "world \<Rightarrow> world \<Rightarrow> bool" where
  "run_inv w w' =
     (take (length (effects w)) (effects w') = effects w
      \<and> length (effects w) \<le> length (effects w')
      \<and> exits_guarded False (new_effects w w')
      \<and> (awaiting w' = 0 \<or> Disconnect \<in> set (new_effects w w')))"

text \<open>
  What \<open>parseInt\<close> reads of a string in radix 10: the decimal digits after the white space
  and the sign. A string is numeric for \<open>parseInt\<close> when this prefix is not empty.
\<close>

definition decimal_prefix :: "string \<Rightarrow> string" where
  "decimal_prefix s = takeWhile (radix_digit 10) (snd (strip_sign (trim_start s)))"

subsection \<open>Facts about the handlers\<close>

lemma health_probe_eq:
  "health_probe w =
     (case db w of
        Reachable \<Rightarrow> (emit (QueryRaw ''SELECT 1'') w, True)
      | Unreachable e \<Rightarrow>
          (emit (ConsoleError ''DB check failed:'' e) (emit (QueryRaw ''SELECT 1'') w), False))"
  by (simp add: health_probe_def prisma_queryRaw_def console_error_def split: db_state.split)

lemma get_health_eq:
  "get_health req w =
     (fst (health_probe w),
      Inr (res_json (JObject
        [(''status'', JString (if snd (health_probe w) then ''healthy'' else ''degraded'')),
         (''uptime'', JNumber (uptime w)),
         (''timestamp'', JString (toISOString (clock w)))])))"
  by (simp add: get_health_def health_probe_eq emit_def split: db_state.split)

lemma probe_ok_iff: "snd (health_probe w) = (db w = Reachable)"
  by (simp add: health_probe_eq split: db_state.split)

lemma query_ok_iff: "(snd (prisma_queryRaw sql w) = Inr ()) = (db w = Reachable)"
  by (simp add: prisma_queryRaw_def split: db_state.split)

lemma query_failed_iff: "(\<exists>e. snd (prisma_queryRaw sql w) = Inl e) = (\<exists>e. db w = Unreachable e)"
  by (simp add: prisma_queryRaw_def split: db_state.split)

lemma effects_health_probe:
  "effects (fst (health_probe w)) =
     effects w @ QueryRaw ''SELECT 1'' #
       (case db w of Reachable \<Rightarrow> [] | Unreachable e \<Rightarrow> [ConsoleError ''DB check failed:'' e])"
  by (simp add: health_probe_eq emit_def split: db_state.split)

text \<open>
  C1. Whatever the database does, reachable or unreachable with any error, \<open>GET /health\<close>
  sends a response with status code 200 and a JSON object as its body. The handler's
  result is a response (\<open>Inr\<close>), never an escaped error (\<open>Inl\<close>): the failure of the
  probe is caught inside the handler.
\<close>

theorem health_returns_200:
  "\<exists>w' b kvs. get_health req (w\<lparr>db := d\<rparr>) = (w', Inr b)
     \<and> status_code b = 200 \<and> content_type b = ''application/json'' \<and> body b = JObject kvs"
  by (simp add: get_health_eq res_json_def)

text \<open>
  C2. The \<open>status\<close> field of the response is \<open>healthy\<close> exactly when the one round trip
  succeeds and \<open>degraded\<close> exactly when it fails, with whatever error; there is no third
  value. A failure is caught and logged with \<open>console.error\<close>, after the query.
\<close>

theorem health_status_iff_probe:
  "\<exists>w' b. get_health req w = (w', Inr b)
     \<and> (field ''status'' (body b) = Some (JString ''healthy''))
         = (snd (prisma_queryRaw ''SELECT 1'' w) = Inr ())
     \<and> (field ''status'' (body b) = Some (JString ''degraded''))
         = (\<exists>e. snd (prisma_queryRaw ''SELECT 1'' w) = Inl e)
     \<and> (field ''status'' (body b) = Some (JString ''healthy'')
         \<or> field ''status'' (body b) = Some (JString ''degraded''))
     \<and> effects w' = effects w @ QueryRaw ''SELECT 1'' #
         (case db w of Reachable \<Rightarrow> [] | Unreachable e \<Rightarrow> [ConsoleError ''DB check failed:'' e])"
  by (cases "db w")
     (simp_all add: get_health_eq res_json_def probe_ok_iff query_ok_iff query_failed_iff
        effects_health_probe)

text \<open>
  C8. One request makes exactly one round trip, the query \<open>SELECT 1\<close>: the queries among
  the effects after the request are those before it and this one, whether the probe
  succeeds or fails. Nothing is retried.
\<close>

theorem health_one_round_trip:
  "filter is_query (effects (fst (get_health req w)))
     = filter is_query (effects w) @ [QueryRaw ''SELECT 1'']"
  by (simp add: get_health_eq effects_health_probe split: db_state.split)

subsection \<open>The shape of the timestamp\<close>

lemma is_digit_digit_char: "is_digit (digit_char n)"
  by (simp add: is_digit_def digit_char_def)

lemma matches_append:
  "matches p1 s1 \<Longrightarrow> matches p2 s2 \<Longrightarrow> matches (p1 @ p2) (s1 @ s2)"
  by (simp add: matches_def list_all2_appendI)

lemma matches_pad: "matches (replicate k (CHR ''d'')) (pad k n)"
proof (induction k arbitrary: n)
  case 0
  show ?case by (simp add: matches_def)
next
  case (Suc k)
  have "matches (replicate k (CHR ''d'') @ [CHR ''d'']) (pad k (n div 10) @ [digit_char n])"
    by (rule matches_append [OF Suc.IH]) (simp add: matches_def is_digit_digit_char)
  then show ?case by (simp add: replicate_append_same)
qed

lemma matches_lit: "CHR ''d'' \<notin> set p \<Longrightarrow> matches p p"
  by (induction p) (auto simp: matches_def)

lemma matches_tail:
  "matches ''-dd-ddTdd:dd:dd.dddZ''
     (''-'' @ pad 2 m @ ''-'' @ pad 2 d @ ''T'' @ pad 2 h @ '':'' @ pad 2 mi @ '':''
      @ pad 2 s @ ''.'' @ pad 3 ms @ ''Z'')"
proof -
  have p: "''-dd-ddTdd:dd:dd.dddZ'' =
      ''-'' @ replicate 2 (CHR ''d'') @ ''-'' @ replicate 2 (CHR ''d'') @ ''T''
      @ replicate 2 (CHR ''d'') @ '':'' @ replicate 2 (CHR ''d'') @ '':''
      @ replicate 2 (CHR ''d'') @ ''.'' @ replicate 3 (CHR ''d'') @ ''Z''"
    by (simp add: eval_nat_numeral)
  show ?thesis
    unfolding p
    by (intro matches_append matches_pad matches_lit) simp_all
qed

lemma matches_year:
  "matches ''dddd'' (year_string y) \<or> matches ''+dddddd'' (year_string y)
     \<or> matches ''-dddddd'' (year_string y)"
proof -
  have p4: "''dddd'' = replicate 4 (CHR ''d'')" and p6: "''dddddd'' = replicate 6 (CHR ''d'')"
    by (simp_all add: eval_nat_numeral)
  have m4: "matches ''dddd'' (pad 4 n)" for n unfolding p4 by (rule matches_pad)
  have m6: "matches ''dddddd'' (pad 6 n)" for n unfolding p6 by (rule matches_pad)
  have plus: "matches ''+dddddd'' (CHR ''+'' # pad 6 n)" for n
    using matches_append [OF matches_lit [of "''+''"] m6 [of n]] by simp
  have minus: "matches ''-dddddd'' (CHR ''-'' # pad 6 n)" for n
    using matches_append [OF matches_lit [of "''-''"] m6 [of n]] by simp
  show ?thesis
    unfolding year_string_def using m4 plus minus by auto
qed

lemma toISOString_iso8601: "is_iso8601 (toISOString t)"
proof -
  obtain y m d where c: "civil (Day t) = (y, m, d)" by (cases "civil (Day t)")
  let ?tail = "''-'' @ pad 2 (nat m) @ ''-'' @ pad 2 (nat d) @ ''T''
          @ pad 2 (nat (HourFromTime t)) @ '':'' @ pad 2 (nat (MinFromTime t)) @ '':''
          @ pad 2 (nat (SecFromTime t)) @ ''.'' @ pad 3 (nat (msFromTime t)) @ ''Z''"
  have t: "toISOString t = year_string y @ ?tail" by (simp add: toISOString_def c)
  have tail: "matches ''-dd-ddTdd:dd:dd.dddZ'' ?tail" by (rule matches_tail)
  from matches_year [of y] show ?thesis
  proof (elim disjE)
    assume "matches ''dddd'' (year_string y)"
    from matches_append [OF this tail] show ?thesis by (simp add: is_iso8601_def t)
  next
    assume "matches ''+dddddd'' (year_string y)"
    from matches_append [OF this tail] show ?thesis by (simp add: is_iso8601_def t)
  next
    assume "matches ''-dddddd'' (year_string y)"
    from matches_append [OF this tail] show ?thesis by (simp add: is_iso8601_def t)
  qed
qed

text \<open>
  C5. Whether the probe succeeds or fails, the response carries \<open>uptime\<close>, the number
  \<open>process.uptime()\<close> returns, and \<open>timestamp\<close>, the current time as \<open>toISOString\<close>
  writes it, which has the shape of an ISO-8601 date-time in UTC.
\<close>

theorem health_uptime_timestamp:
  "\<exists>w' b. get_health req (w\<lparr>db := d\<rparr>) = (w', Inr b)
     \<and> field ''uptime'' (body b) = Some (JNumber (uptime w))
     \<and> field ''timestamp'' (body b) = Some (JString (toISOString (clock w)))
     \<and> is_iso8601 (toISOString (clock w))"
  by (simp add: get_health_eq res_json_def toISOString_iso8601)

subsection \<open>The root endpoint is a constant\<close>

text \<open>
  C6. Any two calls of \<open>GET /\<close>, with any requests in any worlds, send the same response;
  it carries a service name, the status \<open>running\<close> and a version string; and the world
  after the call, database included, is the world before it.
\<close>

theorem root_pure:
  "snd (get_root r1 w1) = snd (get_root r2 w2)
   \<and> fst (get_root r1 w1) = w1
   \<and> (\<exists>b s v. snd (get_root r1 w1) = Inr b
        \<and> field ''service'' (body b) = Some (JString s)
        \<and> field ''status'' (body b) = Some (JString ''running'')
        \<and> field ''version'' (body b) = Some (JString v))"
  by (simp add: get_root_def res_json_def)

text \<open>
  C9. The payload of \<open>GET /\<close> is the same object on every call: service \<open>API Server\<close>,
  status \<open>running\<close>, version \<open>1.0.0\<close>, in this order and with nothing else.
\<close>

theorem root_payload:
  "snd (get_root req w) =
     Inr \<lparr>status_code = 200, content_type = ''application/json'',
          body = JObject [(''service'', JString ''API Server''),
                          (''status'', JString ''running''),
                          (''version'', JString ''1.0.0'')]\<rparr>"
  by (simp add: get_root_def res_json_def)

subsection \<open>Facts about the shutdown handler\<close>

lemma shutdown_start_fields:
  "effects (shutdown_start w) = effects w @ [ConsoleLog shutting_down_msg, Disconnect]"
  "awaiting (shutdown_start w) = Suc (awaiting w)"
  "exit_code (shutdown_start w) = exit_code w"
  "fatal_rejections (shutdown_start w) = fatal_rejections w"
  by (simp_all add: shutdown_start_def console_log_def emit_def)

lemma shutdown_resume_ok:
  "effects (shutdown_resume (Inr u) w) = effects w @ [ProcessExit 0]"
  "exit_code (shutdown_resume (Inr u) w) = Some 0"
  by (simp_all add: shutdown_resume_def process_exit_def emit_def)

lemma shutdown_resume_failed:
  "effects (shutdown_resume (Inl e) w) = effects w @ [UnhandledRejection e]"
  "exit_code (shutdown_resume (Inl e) w) = (if fatal_rejections w then Some 1 else exit_code w)"
  by (simp_all add: shutdown_resume_def unhandled_rejection_def emit_def Let_def)

lemma on_signal_eq: "on_signal s w = shutdown_start w"
  by (cases s) simp_all

lemma run_signal_settle:
  "exit_code w = None \<Longrightarrow> run w [Signal s, DisconnectSettled r] = shutdown r w"
  by (simp add: run_def on_signal_eq shutdown_def shutdown_start_fields)

lemma effects_shutdown:
  "effects (shutdown r w) =
     effects w @ [ConsoleLog shutting_down_msg, Disconnect]
       @ (case r of Inr u \<Rightarrow> [ProcessExit 0] | Inl e \<Rightarrow> [UnhandledRejection e])"
  by (cases r) (simp_all add: shutdown_def shutdown_resume_ok shutdown_resume_failed
      shutdown_start_fields)

lemma exit_code_shutdown:
  "exit_code (shutdown r w) =
     (case r of Inr u \<Rightarrow> Some 0
      | Inl e \<Rightarrow> if fatal_rejections w then Some 1 else exit_code w)"
  by (cases r) (simp_all add: shutdown_def shutdown_resume_ok shutdown_resume_failed
      shutdown_start_fields)

lemma exits_guarded_append:
  "exits_guarded seen (xs @ ys) =
     (exits_guarded seen xs \<and> exits_guarded (seen \<or> Disconnect \<in> set xs) ys)"
  by (induction seen xs rule: exits_guarded.induct) auto

lemma run_inv_init: "awaiting w = 0 \<Longrightarrow> run_inv w w"
  by (simp add: run_inv_def new_effects_def)

lemma run_inv_grow:
  assumes "run_inv w w'" and "effects w'' = effects w' @ es"
    and "exits_guarded (Disconnect \<in> set (new_effects w w')) es"
    and "awaiting w'' = 0 \<or> Disconnect \<in> set (new_effects w w') \<or> Disconnect \<in> set es"
  shows "run_inv w w''"
  using assms
  by (auto simp add: run_inv_def new_effects_def exits_guarded_append)

lemma run_inv_step:
  assumes "run_inv w w'"
  shows "run_inv w (step w' ev)"
proof (cases ev)
  case (Signal s)
  show ?thesis
  proof (cases "exit_code w' = None")
    case True
    have "run_inv w (shutdown_start w')"
      by (rule run_inv_grow [OF assms shutdown_start_fields(1)]) simp_all
    with True Signal show ?thesis by (simp add: on_signal_eq)
  next
    case False
    with Signal assms show ?thesis by auto
  qed
next
  case (DisconnectSettled r)
  show ?thesis
  proof (cases "exit_code w' = None \<and> 0 < awaiting w'")
    case True
    with assms have d: "Disconnect \<in> set (new_effects w w')" by (auto simp: run_inv_def)
    have "run_inv w (shutdown_resume r w')"
    proof (cases r)
      case (Inl e)
      show ?thesis unfolding Inl
        by (rule run_inv_grow [OF assms shutdown_resume_failed(1)]) (simp_all add: d)
    next
      case (Inr u)
      show ?thesis unfolding Inr
        by (rule run_inv_grow [OF assms shutdown_resume_ok(1)]) (simp_all add: d)
    qed
    with True DisconnectSettled show ?thesis by simp
  next
    case False
    with DisconnectSettled assms show ?thesis by auto
  qed
qed

lemma run_snoc: "run w (evs @ [ev]) = step (run w evs) ev"
  by (simp add: run_def)

lemma run_inv_run: "awaiting w = 0 \<Longrightarrow> run_inv w (run w evs)"
proof (induction evs rule: rev_induct)
  case Nil
  then show ?case by (simp add: run_def run_inv_init)
next
  case (snoc ev evs)
  then show ?case by (simp add: run_snoc run_inv_step)
qed

lemma exits_guarded_run:
  "awaiting w = 0 \<Longrightarrow> exits_guarded False (new_effects w (run w evs))"
  using run_inv_run [of w evs] by (simp add: run_inv_def)

lemma run_signals:
  "exit_code w = None \<Longrightarrow>
     exit_code (run w (map Signal sigs)) = None
     \<and> awaiting (run w (map Signal sigs)) = awaiting w + length sigs
     \<and> effects (run w (map Signal sigs)) =
         effects w @ concat (map (\<lambda>s. [ConsoleLog shutting_down_msg, Disconnect]) sigs)"
proof (induction sigs rule: rev_induct)
  case Nil
  then show ?case by (simp add: run_def)
next
  case (snoc s sigs)
  then show ?case by (simp add: run_snoc on_signal_eq shutdown_start_fields)
qed

subsection \<open>The shutdown sequence\<close>

text \<open>
  C3, as the code has it. When the release of the database resource fails during
  shutdown, the failure is not caught and the handler stops at the failed \<open>await\<close>: its
  effects are the log line, the disconnect and the unhandled rejection, and it does not
  call \<open>process.exit(0)\<close>. For a signal delivered to a running process, exit code 0 is
  reached exactly when the disconnect succeeds; after a failed disconnect the process
  ends only if the runtime treats the unhandled rejection as fatal, and then with code 1.
\<close>

theorem shutdown_disconnect_failure:
  assumes "exit_code w = None"
  shows "effects (run w [Signal sig, DisconnectSettled (Inl e)])
           = effects w @ [ConsoleLog shutting_down_msg, Disconnect, UnhandledRejection e]
     \<and> exit_code (run w [Signal sig, DisconnectSettled (Inl e)])
           = (if fatal_rejections w then Some 1 else None)
     \<and> (exit_code (run w [Signal sig, DisconnectSettled r]) = Some 0) = (\<exists>u. r = Inr u)"
  using assms
  by (cases r) (simp_all add: run_signal_settle effects_shutdown exit_code_shutdown)

text \<open>The theorem at a running process whose runtime ends it on an unhandled rejection.\<close>

theorem shutdown_disconnect_failure_witness:
  "exit_code \<lparr>db = Reachable, uptime = 3, clock = 0, effects = [], awaiting = 0,
       exit_code = None, fatal_rejections = True\<rparr> = None
   \<and> effects (run \<lparr>db = Reachable, uptime = 3, clock = 0, effects = [], awaiting = 0,
         exit_code = None, fatal_rejections = True\<rparr>
         [Signal SIGTERM, DisconnectSettled (Inl ''disconnect failed'')])
       = [ConsoleLog shutting_down_msg, Disconnect, UnhandledRejection ''disconnect failed'']
   \<and> exit_code (run \<lparr>db = Reachable, uptime = 3, clock = 0, effects = [], awaiting = 0,
         exit_code = None, fatal_rejections = True\<rparr>
         [Signal SIGTERM, DisconnectSettled (Inl ''disconnect failed'')]) = Some 1"
  using shutdown_disconnect_failure [of "\<lparr>db = Reachable, uptime = 3, clock = 0, effects = [],
      awaiting = 0, exit_code = None, fatal_rejections = True\<rparr>" SIGTERM
      "''disconnect failed''" "Inl ''disconnect failed''"]
  by simp

text \<open>
  C3 as stated fails: after \<open>SIGTERM\<close> and a failed disconnect, a process whose runtime
  only warns has not exited, and one whose runtime ends it has no \<open>process.exit\<close> among
  its effects.
\<close>

theorem shutdown_failure_counterexample:
  "exit_code (run \<lparr>db = Reachable, uptime = 3, clock = 0, effects = [], awaiting = 0,
       exit_code = None, fatal_rejections = False\<rparr>
       [Signal SIGTERM, DisconnectSettled (Inl ''disconnect failed'')]) = None
   \<and> effects (run \<lparr>db = Reachable, uptime = 3, clock = 0, effects = [], awaiting = 0,
       exit_code = None, fatal_rejections = True\<rparr>
       [Signal SIGTERM, DisconnectSettled (Inl ''disconnect failed'')])
     = [ConsoleLog shutting_down_msg, Disconnect, UnhandledRejection ''disconnect failed'']"
  by (simp add: run_def shutdown_start_def shutdown_resume_def unhandled_rejection_def
      console_log_def emit_def)

text \<open>
  C4, as the code has it. For every delivery of either signal to a running process the
  handler logs the shutdown intent, then attempts the release of the connection pool, and
  then, when the release succeeds, ends the process with exit code 0 (when it fails, the
  handler stops there). In any sequence of signals and settlements from a state with no
  handler suspended, no \<open>process.exit\<close> of the handler comes before a disconnect.
\<close>

theorem shutdown_order:
  assumes "exit_code w = None"
  shows "effects (run w [Signal sig, DisconnectSettled r])
           = effects w @ [ConsoleLog shutting_down_msg, Disconnect]
               @ (case r of Inr u \<Rightarrow> [ProcessExit 0] | Inl e \<Rightarrow> [UnhandledRejection e])
     \<and> exit_code (run w [Signal sig, DisconnectSettled (Inr ())]) = Some 0
     \<and> (awaiting w = 0 \<longrightarrow> exits_guarded False (new_effects w (run w evs)))"
  using assms
  by (simp add: run_signal_settle effects_shutdown exit_code_shutdown exits_guarded_run)

text \<open>The theorem at a running process: one delivery of \<open>SIGINT\<close> whose disconnect
  succeeds, and a run of two signals and one settlement.\<close>

theorem shutdown_order_witness:
  "exit_code \<lparr>db = Reachable, uptime = 3, clock = 0, effects = [], awaiting = 0,
       exit_code = None, fatal_rejections = True\<rparr> = None
   \<and> awaiting \<lparr>db = Reachable, uptime = 3, clock = 0, effects = [], awaiting = 0,
       exit_code = None, fatal_rejections = True\<rparr> = 0
   \<and> effects (run \<lparr>db = Reachable, uptime = 3, clock = 0, effects = [], awaiting = 0,
         exit_code = None, fatal_rejections = True\<rparr>
         [Signal SIGINT, DisconnectSettled (Inr ())])
       = [ConsoleLog shutting_down_msg, Disconnect, ProcessExit 0]
   \<and> exit_code (run \<lparr>db = Reachable, uptime = 3, clock = 0, effects = [], awaiting = 0,
         exit_code = None, fatal_rejections = True\<rparr>
         [Signal SIGINT, DisconnectSettled (Inr ())]) = Some 0
   \<and> exits_guarded False (new_effects
        \<lparr>db = Reachable, uptime = 3, clock = 0, effects = [], awaiting = 0,
          exit_code = None, fatal_rejections = True\<rparr>
        (run \<lparr>db = Reachable, uptime = 3, clock = 0, effects = [], awaiting = 0,
          exit_code = None, fatal_rejections = True\<rparr>
          [Signal SIGTERM, Signal SIGINT, DisconnectSettled (Inr ())]))"
  using shutdown_order [of "\<lparr>db = Reachable, uptime = 3, clock = 0, effects = [],
      awaiting = 0, exit_code = None, fatal_rejections = True\<rparr>" SIGINT "Inr ()"
      "[Signal SIGTERM, Signal SIGINT, DisconnectSettled (Inr ())]"]
  by simp

text \<open>
  C4 as stated fails: after \<open>SIGINT\<close> and a failed disconnect the handler has not called
  \<open>process.exit(0)\<close>, and the process has ended with code 1, not 0.
\<close>

theorem shutdown_order_counterexample:
  "ProcessExit 0 \<notin> set (effects (run \<lparr>db = Reachable, uptime = 3, clock = 0, effects = [],
       awaiting = 0, exit_code = None, fatal_rejections = True\<rparr>
       [Signal SIGINT, DisconnectSettled (Inl ''pool is closed'')]))
   \<and> exit_code (run \<lparr>db = Reachable, uptime = 3, clock = 0, effects = [],
       awaiting = 0, exit_code = None, fatal_rejections = True\<rparr>
       [Signal SIGINT, DisconnectSettled (Inl ''pool is closed'')]) = Some 1"
  by (simp add: run_def shutdown_start_def shutdown_resume_def unhandled_rejection_def
      console_log_def emit_def)

text \<open>
  C7. The handler has no one-shot guard. After a first signal the process is still
  running with the handler suspended at its \<open>await\<close>; a second signal delivered then runs
  the handler again, which logs and calls \<open>$disconnect\<close> a second time. In general, every
  signal delivered before the exit adds one disconnect.
\<close>

theorem shutdown_reentrant:
  assumes "exit_code w = None"
  shows "exit_code (run w [Signal s1]) = None \<and> 0 < awaiting (run w [Signal s1])
     \<and> effects (run w [Signal s1, Signal s2])
         = effects w @ [ConsoleLog shutting_down_msg, Disconnect,
                        ConsoleLog shutting_down_msg, Disconnect]
     \<and> awaiting (run w [Signal s1, Signal s2]) = awaiting w + 2
     \<and> length (filter (\<lambda>e. e = Disconnect) (effects (run w (map Signal sigs))))
         = length (filter (\<lambda>e. e = Disconnect) (effects w)) + length sigs"
proof -
  have one: "run w [Signal s1] = run w (map Signal [s1])"
    and two: "run w [Signal s1, Signal s2] = run w (map Signal [s1, s2])"
    by simp_all
  have count: "length (filter (\<lambda>e. e = Disconnect)
      (concat (map (\<lambda>s. [ConsoleLog shutting_down_msg, Disconnect]) ss))) = length ss"
    for ss :: "signal list"
    by (induction ss) simp_all
  show ?thesis
    unfolding one two
    using run_signals [OF assms, of "[s1]"] run_signals [OF assms, of "[s1, s2]"]
      run_signals [OF assms, of sigs]
    by (simp add: count)
qed

text \<open>The theorem at a running process: \<open>SIGTERM\<close>, then \<open>SIGINT\<close> before the disconnect
  settles.\<close>

theorem shutdown_reentrant_witness:
  "exit_code \<lparr>db = Reachable, uptime = 3, clock = 0, effects = [], awaiting = 0,
       exit_code = None, fatal_rejections = True\<rparr> = None
   \<and> exit_code (run \<lparr>db = Reachable, uptime = 3, clock = 0, effects = [], awaiting = 0,
       exit_code = None, fatal_rejections = True\<rparr> [Signal SIGTERM]) = None
   \<and> 0 < awaiting (run \<lparr>db = Reachable, uptime = 3, clock = 0, effects = [], awaiting = 0,
       exit_code = None, fatal_rejections = True\<rparr> [Signal SIGTERM])
   \<and> effects (run \<lparr>db = Reachable, uptime = 3, clock = 0, effects = [], awaiting = 0,
       exit_code = None, fatal_rejections = True\<rparr> [Signal SIGTERM, Signal SIGINT])
       = [ConsoleLog shutting_down_msg, Disconnect, ConsoleLog shutting_down_msg, Disconnect]
   \<and> awaiting (run \<lparr>db = Reachable, uptime = 3, clock = 0, effects = [], awaiting = 0,
       exit_code = None, fatal_rejections = True\<rparr> [Signal SIGTERM, Signal SIGINT]) = 2
   \<and> length (filter (\<lambda>e. e = Disconnect)
         (effects (run \<lparr>db = Reachable, uptime = 3, clock = 0, effects = [], awaiting = 0,
       exit_code = None, fatal_rejections = True\<rparr> (map Signal [SIGTERM, SIGINT])))) = 2"
  using shutdown_reentrant [of "\<lparr>db = Reachable, uptime = 3, clock = 0, effects = [], awaiting = 0,
       exit_code = None, fatal_rejections = True\<rparr>" SIGTERM SIGINT "[SIGTERM, SIGINT]"]
  by simp

subsection \<open>The port's default\<close>

lemma to_Number_not_NaN: "to_Number sg n \<noteq> NaN"
  by (simp add: to_Number_def split: option.split)

lemma parseInt_10:
  "parseInt s 10 =
     (case decimal_prefix s of
        [] \<Rightarrow> NaN
      | Z \<Rightarrow> to_Number (fst (strip_sign (trim_start s))) (digits_value 10 Z))"
  by (simp add: parseInt_def decimal_prefix_def split: prod.split list.split)

lemma parseInt_10_NaN: "(parseInt s 10 = NaN) = (decimal_prefix s = [])"
  by (simp add: parseInt_10 to_Number_not_NaN split: list.split)

lemma parseInt_10_no_prefix: "decimal_prefix s = [] \<Longrightarrow> parseInt s 10 = NaN"
  by (simp add: parseInt_10_NaN)

lemma decimal_prefix_8080: "decimal_prefix ''8080'' = ''8080''"
  by (simp add: decimal_prefix_def is_white_space1_def is_white_space2_def
      is_white_space3_def strip_sign_def radix_digit_def digit_value_def)

lemma parseInt_8080: "parseInt ''8080'' 10 = Num 8080"
  by (simp add: parseInt_10 decimal_prefix_8080 is_white_space1_def is_white_space2_def
      is_white_space3_def strip_sign_def digits_value_def digit_value_def to_Number_def
      round_to_double_def)

text \<open>White space beyond ASCII is skipped too: a no-break space before the digits.\<close>

lemma parseInt_nbsp_8080: "parseInt ([CHR 0xC2, CHR 0xA0] @ ''8080'') 10 = Num 8080"
  by (simp add: parseInt_10 decimal_prefix_def is_white_space1_def is_white_space2_def
      is_white_space3_def strip_sign_def radix_digit_def digits_value_def digit_value_def
      to_Number_def round_to_double_def)

text \<open>Beyond 2^53 the integer read is rounded.\<close>

lemma parseInt_rounds: "parseInt ''9007199254740993'' 10 = Num 9007199254740992"
  by code_simp

lemma set_trim_start: "set (trim_start s) \<subseteq> set s"
  by (induction s rule: trim_start.induct) auto

lemma set_strip_sign: "set (snd (strip_sign S)) \<subseteq> set S"
  by (auto simp: strip_sign_def split: list.split)

lemma radix_digit_10: "radix_digit 10 c \<Longrightarrow> is_digit c"
  by (auto simp: radix_digit_def digit_value_def is_digit_def Let_def
      split: option.splits if_splits)

lemma no_digit_no_prefix:
  assumes "\<forall>c\<in>set s. \<not> is_digit c"
  shows "decimal_prefix s = []"
proof -
  have "set (snd (strip_sign (trim_start s))) \<subseteq> set s"
    using set_strip_sign [of "trim_start s"] set_trim_start [of s] by blast
  with assms have "\<forall>c\<in>set (snd (strip_sign (trim_start s))). \<not> radix_digit 10 c"
    using radix_digit_10 by blast
  then show ?thesis
    unfolding decimal_prefix_def by (cases "snd (strip_sign (trim_start s))") auto
qed

text \<open>
  C10. The port is the default 8080 when \<open>PORT\<close> is unset or empty. A value that is set
  and not empty is parsed as it is, the default playing no part: the port is \<open>NaN\<close>
  exactly when the value has no decimal digit after its leading white space and sign,
  and then it is not 8080. In particular a value with no decimal digit at all gives
  \<open>NaN\<close>.
\<close>

theorem PORT_default_only_when_absent:
  "(env ''PORT'' = None \<or> env ''PORT'' = Some [] \<longrightarrow> PORT env = Num 8080)
   \<and> (\<forall>s. env ''PORT'' = Some s \<and> s \<noteq> [] \<longrightarrow>
          PORT env = parseInt s 10
          \<and> (PORT env = NaN) = (decimal_prefix s = [])
          \<and> (decimal_prefix s = [] \<longrightarrow> PORT env \<noteq> Num 8080)
          \<and> ((\<forall>c\<in>set s. \<not> is_digit c) \<longrightarrow> PORT env = NaN))"
  by (auto simp add: PORT_def js_or_def parseInt_8080 parseInt_10_NaN parseInt_10_no_prefix
      no_digit_no_prefix)

text \<open>The theorem at an empty environment and at \<open>PORT=abc\<close>.\<close>

theorem PORT_default_only_when_absent_witness:
  "Map.empty ''PORT'' = (None :: string option) \<and> PORT Map.empty = Num 8080
   \<and> [''PORT'' \<mapsto> ''abc''] ''PORT'' = Some ''abc'' \<and> ''abc'' \<noteq> []
   \<and> decimal_prefix ''abc'' = [] \<and> list_all (\<lambda>c. \<not> is_digit c) ''abc''
   \<and> PORT [''PORT'' \<mapsto> ''abc''] = NaN
   \<and> PORT [''PORT'' \<mapsto> ''abc''] \<noteq> Num 8080"
proof -
  have d: "decimal_prefix ''abc'' = []"
    by (simp add: decimal_prefix_def is_white_space1_def is_white_space2_def
        is_white_space3_def strip_sign_def radix_digit_def digit_value_def)
  have n: "list_all (\<lambda>c. \<not> is_digit c) ''abc''"
    by (simp add: is_digit_def)
  have absent: "PORT Map.empty = Num 8080"
    using PORT_default_only_when_absent [of Map.empty] by simp
  have invalid: "PORT [''PORT'' \<mapsto> ''abc''] = NaN"
    using PORT_default_only_when_absent [of "[''PORT'' \<mapsto> ''abc'']"] d by auto
  from absent invalid d n show ?thesis by simp
qed

subsection \<open>The fields of a date fit their widths\<close>

text \<open>
  Month, day, hour, minute, second and millisecond are within the two or three digits
  \<open>toISOString\<close> gives them, and the year of a time value within six: \<open>pad\<close> drops no
  digit.
\<close>

lemma year_of_era_range:
  assumes "0 \<le> doe" "doe \<le> 146096"
  shows "0 \<le> fst (year_of_era doe) \<and> fst (year_of_era doe) \<le> 399
       \<and> 0 \<le> snd (year_of_era doe) \<and> snd (year_of_era doe) \<le> 365"
proof -
  define c where "c = min 3 (doe div 36524)"
  define d1 where "d1 = doe - c * 36524"
  define q where "q = d1 div 1461"
  define d2 where "d2 = d1 mod 1461"
  define a where "a = min 3 (d2 div 365)"
  have c: "0 \<le> c" "c \<le> 3" "c \<le> doe div 36524" using assms by (auto simp: c_def)
  have "c * 36524 \<le> doe" using c(3) by linarith
  then have d1_lo: "0 \<le> d1" by (simp add: d1_def)
  have d1_hi: "d1 \<le> 36524"
  proof (cases "doe div 36524 \<le> 3")
    case True
    then have "c = doe div 36524" by (simp add: c_def)
    then have "d1 = doe mod 36524" by (simp add: d1_def minus_div_mult_eq_mod)
    then show ?thesis using pos_mod_bound [of 36524 doe] by simp
  next
    case False
    then have "c = 3" by (simp add: c_def)
    then show ?thesis using assms by (simp add: d1_def)
  qed
  have q: "0 \<le> q" "q \<le> 24" using d1_lo d1_hi by (auto simp: q_def)
  have d2: "0 \<le> d2" "d2 \<le> 1460" by (auto simp: d2_def)
  have a: "0 \<le> a" "a \<le> 3" "a \<le> d2 div 365" using d2 by (auto simp: a_def)
  have lo: "a * 365 \<le> d2" using a(3) by linarith
  have hi: "d2 - a * 365 \<le> 365"
  proof (cases "d2 div 365 \<le> 3")
    case True
    then have "a = d2 div 365" by (simp add: a_def)
    then have "d2 - a * 365 = d2 mod 365" by (simp add: minus_div_mult_eq_mod)
    then show ?thesis using pos_mod_bound [of 365 d2] by simp
  next
    case False
    then have "a = 3" by (simp add: a_def)
    then show ?thesis using d2 by simp
  qed
  have "year_of_era doe = (100 * c + 4 * q + a, d2 - a * 365)"
    by (simp add: year_of_era_def Let_def a_def d2_def q_def d1_def c_def)
  then show ?thesis using c q a lo hi by simp
qed

lemma month_day_range:
  fixes doy :: int
  assumes "0 \<le> doy" "doy \<le> 365"
  defines "mp \<equiv> (5 * doy + 2) div 153"
  shows "0 \<le> mp \<and> mp \<le> 11 \<and> 1 \<le> doy - (153 * mp + 2) div 5 + 1
       \<and> doy - (153 * mp + 2) div 5 + 1 \<le> 31"
proof -
  define k where "k = (153 * mp + 2) div 5"
  have m1: "153 * mp \<le> 5 * doy + 2"
    unfolding mp_def by (simp add: mult.commute [of 153])
  have m2: "5 * doy + 2 < 153 * mp + 153"
    unfolding mp_def using pos_mod_bound [of 153 "5 * doy + 2"]
    by (simp add: algebra_simps minus_mod_eq_mult_div [symmetric])
  have k1: "5 * k \<le> 153 * mp + 2"
    unfolding k_def by (simp add: mult.commute [of 5])
  have k2: "153 * mp + 2 < 5 * k + 5"
    unfolding k_def using pos_mod_bound [of 5 "153 * mp + 2"]
    by (simp add: algebra_simps minus_mod_eq_mult_div [symmetric])
  have "0 \<le> mp" using assms(1) unfolding mp_def by simp
  moreover have "mp \<le> 11" using m1 assms(2) by linarith
  moreover have "1 \<le> doy - k + 1" using m1 k1 by linarith
  moreover have "doy - k + 1 \<le> 31" using m2 k2 by linarith
  ultimately show ?thesis unfolding k_def by simp
qed

lemma civil_range:
  assumes "civil n = (y, m, d)"
  shows "1 \<le> m \<and> m \<le> 12 \<and> 1 \<le> d \<and> d \<le> 31
       \<and> 400 * ((n + 719468) div 146097) \<le> y \<and> y \<le> 400 * ((n + 719468) div 146097) + 400"
proof -
  define doe where "doe = (n + 719468) mod 146097"
  have doe: "0 \<le> doe" "doe \<le> 146096"
    using pos_mod_bound [of 146097 "n + 719468"] by (simp_all add: doe_def)
  obtain yoe doy where yd: "year_of_era doe = (yoe, doy)" by (cases "year_of_era doe")
  from year_of_era_range [OF doe] yd
  have r: "0 \<le> yoe" "yoe \<le> 399" "0 \<le> doy" "doy \<le> 365" by simp_all
  define mp where "mp = (5 * doy + 2) div 153"
  from month_day_range [OF r(3,4)]
  have md: "0 \<le> mp" "mp \<le> 11" "1 \<le> doy - (153 * mp + 2) div 5 + 1"
    "doy - (153 * mp + 2) div 5 + 1 \<le> 31"
    by (simp_all add: mp_def)
  define M where "M = (if mp < 10 then mp + 3 else mp - 9)"
  define D where "D = doy - (153 * mp + 2) div 5 + 1"
  define Y where "Y = yoe + (n + 719468) div 146097 * 400 + (if M \<le> 2 then 1 else 0)"
  have "civil n = (Y, M, D)"
    using yd by (simp add: civil_def Let_def doe_def mp_def Y_def M_def D_def)
  with assms have "y = Y" "m = M" "d = D" by simp_all
  moreover have "1 \<le> M" "M \<le> 12" using md by (simp_all add: M_def)
  moreover have "1 \<le> D" "D \<le> 31" using md by (simp_all add: D_def)
  moreover have "400 * ((n + 719468) div 146097) \<le> Y" "Y \<le> 400 * ((n + 719468) div 146097) + 400"
    using r by (simp_all add: Y_def)
  ultimately show ?thesis by simp
qed

lemma time_fields_range:
  "0 \<le> HourFromTime t \<and> HourFromTime t < 24 \<and> 0 \<le> MinFromTime t \<and> MinFromTime t < 60
   \<and> 0 \<le> SecFromTime t \<and> SecFromTime t < 60 \<and> 0 \<le> msFromTime t \<and> msFromTime t < 1000"
  by (simp add: HourFromTime_def MinFromTime_def SecFromTime_def msFromTime_def)

lemma year_range:
  assumes "valid_time t" and "civil (Day t) = (y, m, d)"
  shows "- 999999 \<le> y \<and> y \<le> 999999"
proof -
  from assms(1) have "- 100000000 \<le> Day t" "Day t \<le> 100000000"
    unfolding valid_time_def Day_def msPerDay_def
    using zdiv_mono1 [of "- 8640000000000000" t 86400000]
      zdiv_mono1 [of t 8640000000000000 86400000]
    by simp_all
  then have "- 680 \<le> (Day t + 719468) div 146097" "(Day t + 719468) div 146097 \<le> 689"
    using zdiv_mono1 [of "- 99280532" "Day t + 719468" 146097]
      zdiv_mono1 [of "Day t + 719468" 100719468 146097]
    by simp_all
  with civil_range [OF assms(2)] show ?thesis by linarith
qed

end
